theory Spec2Isabelle
  imports Complex_Main "HOL-Library.List_Lexorder" "HOL-Library.Char_ord"
begin

section \<open>Values of the data frame\<close>

text \<open>
  The program is a pandas/Streamlit script (dash-tm.py).  A float64 cell is modelled by
  \<open>pyfloat\<close>: a finite value (an exact rational: the rounding of binary floating point is
  abstracted), NaN, or one of the two infinities that pandas produces on a division by zero.
\<close>

datatype pyfloat = Fin rat | NaN | PInf | NInf

text \<open>A datetime64 cell: \<open>None\<close> is NaT, \<open>Some (Timestamp y m d)\<close> is midnight of that day.\<close>

datatype timestamp = Timestamp nat nat nat

datatype erro = KeyError string

fun ano :: "timestamp \<Rightarrow> nat" where
  "ano (Timestamp y m d) = y"

fun mes :: "timestamp \<Rightarrow> nat" where
  "mes (Timestamp y m d) = m"

fun dia :: "timestamp \<Rightarrow> nat" where
  "dia (Timestamp y m d) = d"

text \<open>Chronological order of two timestamps (\<open><=\<close> of pandas on datetime64 values).\<close>

definition date_le :: "timestamp \<Rightarrow> timestamp \<Rightarrow> bool" where
  "date_le a b =
     (ano a < ano b \<or> (ano a = ano b \<and> (mes a < mes b \<or> (mes a = mes b \<and> dia a \<le> dia b))))"

text \<open>
  Element-wise comparison of a datetime64 column with a \<open>pd.Timestamp\<close>: every comparison
  with NaT is False.
\<close>

definition ts_ge :: "timestamp option \<Rightarrow> timestamp \<Rightarrow> bool" where
  "ts_ge c t = (case c of None \<Rightarrow> False | Some d \<Rightarrow> date_le t d)"

definition ts_le :: "timestamp option \<Rightarrow> timestamp \<Rightarrow> bool" where
  "ts_le c t = (case c of None \<Rightarrow> False | Some d \<Rightarrow> date_le d t)"

section \<open>String helpers of Python and pandas\<close>

text \<open>
  \<open>str.replace(old, new)\<close> with \<open>regex=False\<close> (the default of pandas 2): every
  non-overlapping occurrence of the literal \<open>old\<close>, scanned from the left.  The script only
  calls it with the non-empty literals \<open>'R$ '\<close>, \<open>'.'\<close> and \<open>','\<close>; for an empty \<open>old\<close> the
  model returns the text unchanged.
\<close>

function str_replace :: "string \<Rightarrow> string \<Rightarrow> string \<Rightarrow> string" where
  "str_replace old new [] = []"
| "str_replace old new (c # cs) =
     (if old \<noteq> [] \<and> take (length old) (c # cs) = old
      then new @ str_replace old new (drop (length old) (c # cs))
      else c # str_replace old new cs)"
  by pat_completeness auto
termination
  by (relation "measure (\<lambda>(old, new, s). length s)") (auto simp: neq_Nil_conv)

text \<open>ASCII white space, as \<open>str.strip()\<close> removes it from both ends.\<close>

definition espaco :: "char \<Rightarrow> bool" where
  "espaco c = (c \<in> set [CHR '' '', CHR 0x09, CHR 0x0A, CHR 0x0B, CHR 0x0C, CHR 0x0D,
                         CHR 0x1C, CHR 0x1D, CHR 0x1E, CHR 0x1F])"

definition strip :: "string \<Rightarrow> string" where
  "strip s = rev (dropWhile espaco (rev (dropWhile espaco s)))"

text \<open>
  A cell of the raw matrix is a string; a row shorter than the header has no cell in the
  trailing columns, which \<open>pd.DataFrame\<close> fills with \<open>None\<close>.  \<open>astype(str)\<close> turns that
  \<open>None\<close> into the text \<open>'None'\<close>.
\<close>

definition astype_str :: "string option \<Rightarrow> string" where
  "astype_str c = (case c of None \<Rightarrow> ''None'' | Some s \<Rightarrow> s)"

section \<open>Date parsing: \<open>pd.to_datetime(col, format='%d/%m/%Y', errors='coerce')\<close>\<close>

definition digito :: "char \<Rightarrow> bool" where
  "digito c = (c \<in> set ''0123456789'')"

definition valor_digito :: "char \<Rightarrow> nat" where
  "valor_digito c = of_char c - 48"

text \<open>
  The three directives, as the regular expressions of strptime read them:
  \<open>%d\<close> is \<open>3[0-1]|[1-2]\d|0[1-9]|[1-9]| [1-9]\<close>, \<open>%m\<close> is \<open>1[0-2]|0[1-9]|[1-9]\<close> and
  \<open>%Y\<close> is \<open>\d\d\d\d\<close>.
\<close>

definition campo_d :: "string \<Rightarrow> nat option" where
  "campo_d s =
     (case s of
        [a] \<Rightarrow> if digito a \<and> a \<noteq> CHR ''0'' then Some (valor_digito a) else None
      | [a, b] \<Rightarrow>
          if a = CHR ''3'' \<and> (b = CHR ''0'' \<or> b = CHR ''1'') then Some (30 + valor_digito b)
          else if (a = CHR ''1'' \<or> a = CHR ''2'') \<and> digito b
            then Some (10 * valor_digito a + valor_digito b)
          else if (a = CHR ''0'' \<or> a = CHR '' '') \<and> digito b \<and> b \<noteq> CHR ''0''
            then Some (valor_digito b)
          else None
      | _ \<Rightarrow> None)"

definition campo_m :: "string \<Rightarrow> nat option" where
  "campo_m s =
     (case s of
        [a] \<Rightarrow> if digito a \<and> a \<noteq> CHR ''0'' then Some (valor_digito a) else None
      | [a, b] \<Rightarrow>
          if a = CHR ''1'' \<and> (b = CHR ''0'' \<or> b = CHR ''1'' \<or> b = CHR ''2'')
            then Some (10 + valor_digito b)
          else if a = CHR ''0'' \<and> digito b \<and> b \<noteq> CHR ''0'' then Some (valor_digito b)
          else None
      | _ \<Rightarrow> None)"

definition campo_Y :: "string \<Rightarrow> nat option" where
  "campo_Y s =
     (if length s = 4 \<and> list_all digito s
      then Some (foldl (\<lambda>n c. 10 * n + valor_digito c) 0 s) else None)"

definition bissexto :: "nat \<Rightarrow> bool" where
  "bissexto y = (y mod 4 = 0 \<and> (y mod 400 = 0 \<or> y mod 100 \<noteq> 0))"

definition dias_no_mes :: "nat \<Rightarrow> nat \<Rightarrow> nat" where
  "dias_no_mes y m =
     (if m = 2 then (if bissexto y then 29 else 28)
      else if m = 4 \<or> m = 6 \<or> m = 9 \<or> m = 11 then 30 else 31)"

text \<open>
  The whole text must match \<open>%d/%m/%Y\<close>, and the three numbers must name a day of the
  calendar (year 1 or later).  Any failure is the \<open>ValueError\<close> that \<open>errors='coerce'\<close> turns
  into NaT.  The bounds of the nanosecond range of \<open>pd.Timestamp\<close> (years 1677 to 2262) are
  not modelled.
\<close>

definition strptime_dmY :: "string \<Rightarrow> timestamp option" where
  "strptime_dmY s =
     (let barra = (\<lambda>c. c \<noteq> CHR ''/'') in
      case dropWhile barra s of
        [] \<Rightarrow> None
      | _ # r1 \<Rightarrow>
          (case dropWhile barra r1 of
             [] \<Rightarrow> None
           | _ # r2 \<Rightarrow>
               (case (campo_d (takeWhile barra s), campo_m (takeWhile barra r1), campo_Y r2) of
                  (Some d, Some m, Some y) \<Rightarrow>
                    if 1 \<le> y \<and> d \<le> dias_no_mes y m then Some (Timestamp y m d) else None
                | _ \<Rightarrow> None)))"

definition to_datetime :: "string option \<Rightarrow> timestamp option" where
  "to_datetime c = (case c of None \<Rightarrow> None | Some s \<Rightarrow> strptime_dmY s)"



section \<open>Currency and number parsing\<close>

text \<open>
  \<open>pd.to_numeric\<close> is a library function whose grammar of numerals is not part of the
  script, so the function reading one text as a number is a parameter \<open>le\<close> of the model
  (\<open>None\<close>: the text is not a number).  With \<open>errors='coerce'\<close> a text that is not a number,
  and a missing cell, become NaN.
\<close>

type_synonym leitor = "string \<Rightarrow> pyfloat option"

definition to_numeric :: "leitor \<Rightarrow> string option \<Rightarrow> pyfloat" where
  "to_numeric le c =
     (case c of None \<Rightarrow> NaN | Some s \<Rightarrow> (case le s of None \<Rightarrow> NaN | Some v \<Rightarrow> v))"

definition fillna0 :: "pyfloat \<Rightarrow> pyfloat" where
  "fillna0 v = (if v = NaN then Fin 0 else v)"

text \<open>
  Line 89: \<open>.astype(str).str.replace('R$ ', '').str.replace('.', '').str.replace(',', '.')
  .replace('', '0')\<close>; the last call is \<open>Series.replace\<close>, which replaces a cell that is
  exactly the empty text.
\<close>

definition valor_texto :: "string \<Rightarrow> string" where
  "valor_texto s = str_replace '','' ''.'' (str_replace ''.'' '''' (str_replace ''R$ '' '''' s))"

definition valor_limpo :: "string \<Rightarrow> string" where
  "valor_limpo s = (if valor_texto s = '''' then ''0'' else valor_texto s)"

text \<open>Line 90: \<open>pd.to_numeric(..., errors='coerce').fillna(0)\<close>.\<close>

definition valor_num :: "leitor \<Rightarrow> string option \<Rightarrow> pyfloat" where
  "valor_num le c = fillna0 (to_numeric le (Some (valor_limpo (astype_str c))))"

text \<open>
  A reader of plain decimal numerals (an optional sign, digits, an optional point and
  digits), used where a concrete input is evaluated.
\<close>

definition digitos_nat :: "string \<Rightarrow> nat" where
  "digitos_nat s = foldl (\<lambda>n c. 10 * n + valor_digito c) 0 s"

definition le_sem_sinal :: "string \<Rightarrow> rat option" where
  "le_sem_sinal s =
     (let i = takeWhile digito s; r = dropWhile digito s in
      case r of
        [] \<Rightarrow> if i = [] then None else Some (of_nat (digitos_nat i))
      | p # f \<Rightarrow>
          if p = CHR ''.'' \<and> list_all digito f \<and> \<not> (i = [] \<and> f = [])
          then Some (of_nat (digitos_nat i) + of_nat (digitos_nat f) / 10 ^ length f)
          else None)"

definition leitor_decimal :: leitor where
  "leitor_decimal s =
     (case strip s of
        [] \<Rightarrow> None
      | c # cs \<Rightarrow>
          if c = CHR ''-'' then map_option (\<lambda>q. Fin (- q)) (le_sem_sinal cs)
          else if c = CHR ''+'' then map_option Fin (le_sem_sinal cs)
          else map_option Fin (le_sem_sinal (c # cs)))"

section \<open>The data frame and \<open>load_data\<close>\<close>

text \<open>
  One row of the data frame, with the columns the script reads.  The field of a column that
  the sheet does not have holds an arbitrary value: every read of a column goes through the
  list of column names of the frame (\<open>tem\<close>), as \<open>df['X']\<close> raises KeyError on a missing
  column.  \<open>PRODUTO\<close> is left as the sheet gave it (a missing cell is \<open>None\<close>); the other
  text columns went through \<open>astype(str).str.strip()\<close>.
\<close>

record reg =
  DATA :: "timestamp option"
  DATA_DA_CALL :: "timestamp option"
  DIA_DA_VENDA :: "timestamp option"
  VALOR_NUM :: pyfloat
  SDR :: string
  CLOSER :: string
  FUNIL :: string
  STATUS :: string
  VENDA_REALIZADA :: string
  PRODUTO :: "string option"
  CICLO_DE_VENDAS :: pyfloat

record dataframe =
  colunas :: "string list"
  regs :: "reg list"

definition tem :: "dataframe \<Rightarrow> string \<Rightarrow> bool" where
  "tem df nome = (nome \<in> set (colunas df))"

fun posicao :: "string list \<Rightarrow> string \<Rightarrow> nat option" where
  "posicao [] nome = None"
| "posicao (c # cs) nome = (if c = nome then Some 0 else map_option Suc (posicao cs nome))"

text \<open>The cell of a row under a column name; \<open>None\<close> where the row is too short.\<close>

definition celula :: "string list \<Rightarrow> string list \<Rightarrow> string \<Rightarrow> string option" where
  "celula cab linha nome =
     (case posicao cab nome of
        None \<Rightarrow> None
      | Some i \<Rightarrow> if i < length linha then Some (linha ! i) else None)"

definition ler_reg :: "leitor \<Rightarrow> string list \<Rightarrow> string list \<Rightarrow> reg" where
  "ler_reg le cab linha =
     \<lparr> DATA = to_datetime (celula cab linha ''DATA''),
       DATA_DA_CALL = to_datetime (celula cab linha ''DATA DA CALL''),
       DIA_DA_VENDA = to_datetime (celula cab linha ''DIA DA VENDA''),
       VALOR_NUM = valor_num le (celula cab linha ''VALOR''),
       SDR = strip (astype_str (celula cab linha ''SDR'')),
       CLOSER = strip (astype_str (celula cab linha ''CLOSER'')),
       FUNIL = strip (astype_str (celula cab linha ''FUNIL'')),
       STATUS = strip (astype_str (celula cab linha ''STATUS'')),
       VENDA_REALIZADA = strip (astype_str (celula cab linha ''VENDA REALIZADA'')),
       PRODUTO = celula cab linha ''PRODUTO'',
       CICLO_DE_VENDAS = to_numeric le (celula cab linha ''CICLO DE VENDAS'') \<rparr>"

text \<open>The columns that \<open>load_data\<close> converts (lines 82, 88, 93 and 99).\<close>

definition colunas_tratadas :: "string list" where
  "colunas_tratadas =
     [''DATA'', ''DATA DA CALL'', ''DIA DA VENDA'', ''VALOR'', ''SDR'', ''CLOSER'', ''FUNIL'',
      ''STATUS'', ''VENDA REALIZADA'', ''CICLO DE VENDAS'']"

text \<open>
  \<open>pd.DataFrame(rows, columns=header)\<close> pads short rows with \<open>None\<close> up to the longest row
  and raises ValueError when that width is not the number of header names.
\<close>

definition largura :: "string list list \<Rightarrow> nat" where
  "largura linhas = foldr max (map length linhas) 0"

text \<open>
  \<open>load_data\<close> (lines 69 to 105) on the matrix that \<open>ler_dados\<close> returned.  \<open>None\<close> is its
  return value \<open>None\<close>: on an empty matrix, and on every exception, which line 103 catches.
  The exceptions are the ValueError of the constructor and the errors of a converted column
  whose name stands twice in the header (\<open>df[col]\<close> is then a frame, not a column).  A header
  that repeats \<open>PRODUTO\<close> or holds \<open>VALOR_NUM\<close> is outside the model.
\<close>

definition load_data :: "leitor \<Rightarrow> string list list \<Rightarrow> dataframe option" where
  "load_data le aba_agendamentos =
     (case aba_agendamentos of
        [] \<Rightarrow> None
      | cabecalho # linhas \<Rightarrow>
          (let cab = map strip cabecalho in
           if linhas \<noteq> [] \<and> largura linhas \<noteq> length cabecalho then None
           else if list_ex (\<lambda>c. 1 < count_list cab c) colunas_tratadas then None
           else Some \<lparr> colunas = (if ''VALOR'' \<in> set cab then cab @ [''VALOR_NUM''] else cab),
                       regs = map (ler_reg le cab) linhas \<rparr>))"

section \<open>Arithmetic and aggregation on float64 values\<close>

fun fadd :: "pyfloat \<Rightarrow> pyfloat \<Rightarrow> pyfloat" where
  "fadd (Fin a) (Fin b) = Fin (a + b)"
| "fadd NaN v = NaN"
| "fadd v NaN = NaN"
| "fadd PInf NInf = NaN"
| "fadd NInf PInf = NaN"
| "fadd PInf v = PInf"
| "fadd v PInf = PInf"
| "fadd NInf v = NInf"
| "fadd v NInf = NInf"

text \<open>\<open>a < b\<close> on float64: False whenever one side is NaN.\<close>

fun flt :: "pyfloat \<Rightarrow> pyfloat \<Rightarrow> bool" where
  "flt (Fin a) (Fin b) = (a < b)"
| "flt NaN v = False"
| "flt v NaN = False"
| "flt v NInf = False"
| "flt NInf v = True"
| "flt PInf v = False"
| "flt v PInf = True"

text \<open>Division of a float64 by a positive count, and multiplication by 100.\<close>

fun fdiv_nat :: "pyfloat \<Rightarrow> nat \<Rightarrow> pyfloat" where
  "fdiv_nat (Fin a) n = Fin (a / of_nat n)"
| "fdiv_nat v n = v"

fun vezes100 :: "pyfloat \<Rightarrow> pyfloat" where
  "vezes100 (Fin a) = Fin (a * 100)"
| "vezes100 v = v"

text \<open>\<open>Series.sum()\<close>: NaN cells are skipped; the sum of no cell is 0.\<close>

definition soma :: "pyfloat list \<Rightarrow> pyfloat" where
  "soma vs = foldl fadd (Fin 0) (filter (\<lambda>v. v \<noteq> NaN) vs)"

text \<open>\<open>Series.mean()\<close>: NaN cells are skipped; the mean of no cell is NaN.\<close>

definition media :: "pyfloat list \<Rightarrow> pyfloat" where
  "media vs =
     (let ws = filter (\<lambda>v. v \<noteq> NaN) vs in
      if ws = [] then NaN else fdiv_nat (soma ws) (length ws))"

fun inserir :: "pyfloat \<Rightarrow> pyfloat list \<Rightarrow> pyfloat list" where
  "inserir v [] = [v]"
| "inserir v (x # xs) = (if flt x v then x # inserir v xs else v # x # xs)"

definition ordenar :: "pyfloat list \<Rightarrow> pyfloat list" where
  "ordenar vs = foldr inserir vs []"

text \<open>
  \<open>Series.median()\<close>: the middle of the sorted non-NaN cells, the mean of the two middle
  ones when their number is even.
\<close>

definition mediana :: "pyfloat list \<Rightarrow> pyfloat" where
  "mediana vs =
     (let ws = ordenar (filter (\<lambda>v. v \<noteq> NaN) vs); n = length ws in
      if n = 0 then NaN
      else if odd n then ws ! (n div 2)
      else fdiv_nat (fadd (ws ! (n div 2 - 1)) (ws ! (n div 2))) 2)"

definition minimo :: "pyfloat list \<Rightarrow> pyfloat" where
  "minimo vs =
     (case filter (\<lambda>v. v \<noteq> NaN) vs of
        [] \<Rightarrow> NaN
      | w # ws \<Rightarrow> foldl (\<lambda>a b. if flt b a then b else a) w ws)"

definition maximo :: "pyfloat list \<Rightarrow> pyfloat" where
  "maximo vs =
     (case filter (\<lambda>v. v \<noteq> NaN) vs of
        [] \<Rightarrow> NaN
      | w # ws \<Rightarrow> foldl (\<lambda>a b. if flt a b then b else a) w ws)"

text \<open>
  The rate of the overall metrics (lines 139 to 141, 218 and 284), on two Python ints:
  \<open>(num / den * 100) if den > 0 else 0\<close>.
\<close>

definition taxa :: "nat \<Rightarrow> nat \<Rightarrow> pyfloat" where
  "taxa num den = (if den > 0 then Fin (of_nat num / of_nat den * 100) else Fin 0)"

text \<open>
  The rate of the grouped tables (lines 243, 307, 349, 365, 396 and 397), on two int64
  columns: \<open>(num / den * 100).round(1)\<close>.  The division of pandas does not raise: 0/0 is NaN
  and n/0 is infinite.  \<open>round(1)\<close> rounds the tenths half to even.
\<close>

definition div_series :: "nat \<Rightarrow> nat \<Rightarrow> pyfloat" where
  "div_series num den =
     (if den = 0 then (if num = 0 then NaN else PInf) else Fin (of_nat num / of_nat den))"

definition rint :: "rat \<Rightarrow> int" where
  "rint x =
     (let f = floor x; d = x - of_int f in
      if d < 1 / 2 then f else if 1 / 2 < d then f + 1 else if even f then f else f + 1)"

fun round1 :: "pyfloat \<Rightarrow> pyfloat" where
  "round1 (Fin a) = Fin (of_int (rint (a * 10)) / 10)"
| "round1 v = v"

definition taxa_series :: "nat \<Rightarrow> nat \<Rightarrow> pyfloat" where
  "taxa_series num den = round1 (vezes100 (div_series num den))"

section \<open>Selections of rows\<close>

text \<open>\<open>df[mask]\<close>: the rows whose mask is True, in order, with the same columns.\<close>

definition filtrar :: "(reg \<Rightarrow> bool) \<Rightarrow> dataframe \<Rightarrow> dataframe" where
  "filtrar p df = df\<lparr>regs := filter p (regs df)\<rparr>"

definition contar :: "(reg \<Rightarrow> bool) \<Rightarrow> reg list \<Rightarrow> nat" where
  "contar p rs = length (filter p rs)"

text \<open>The keys of \<open>groupby(col)\<close>, which sorts them, and of \<open>sorted(col.unique())\<close>.\<close>

definition chaves :: "string list \<Rightarrow> string list" where
  "chaves vs = sort (remdups vs)"

definition dropna :: "string option list \<Rightarrow> string list" where
  "dropna cs = map the (filter (\<lambda>c. c \<noteq> None) cs)"

definition call_realizada :: "reg \<Rightarrow> bool" where
  "call_realizada r = (STATUS r = ''Call Realizada'')"

definition no_show :: "reg \<Rightarrow> bool" where
  "no_show r = (STATUS r = ''No Show'')"

definition ganho :: "reg \<Rightarrow> bool" where
  "ganho r = (VENDA_REALIZADA r = ''Ganho'')"

text \<open>Lines 144 and 406: \<open>df['CICLO DE VENDAS'].notna() & (df['CICLO DE VENDAS'] > 0)\<close>.\<close>

definition ciclo_valido :: "reg \<Rightarrow> bool" where
  "ciclo_valido r = (CICLO_DE_VENDAS r \<noteq> NaN \<and> flt (Fin 0) (CICLO_DE_VENDAS r))"

section \<open>The dashboards\<close>

text \<open>
  A call of \<open>st.metric(label, text)\<close> is a pair of the card and the value that the script
  formats into its text; the formatting itself is not modelled.  Streamlit renders each card
  when the call runs, so a dashboard that raises has shown the cards before the exception.
\<close>

datatype cartao =
    Card_Total_Agendamentos | Card_Calls_Realizadas | Card_Vendas_Fechadas | Card_Receita_Total
  | Card_Taxa_de_Show | Card_Taxa_de_Conversao | Card_Taxa_de_No_Show | Card_Ciclo_Medio

datatype valor_cartao = Contagem nat | Reais pyfloat | Porcento pyfloat | Dias pyfloat | N_A

type_synonym metrica = "cartao \<times> valor_cartao"

definition total_agendamentos :: "dataframe \<Rightarrow> nat" where
  "total_agendamentos df = length (regs df)"

definition calls_realizadas :: "dataframe \<Rightarrow> nat" where
  "calls_realizadas df = contar call_realizada (regs df)"

definition vendas_ganhas :: "dataframe \<Rightarrow> nat" where
  "vendas_ganhas df = contar ganho (regs df)"

definition no_shows :: "dataframe \<Rightarrow> nat" where
  "no_shows df = contar no_show (regs df)"

definition receita_total :: "dataframe \<Rightarrow> pyfloat" where
  "receita_total df = soma (map VALOR_NUM (filter ganho (regs df)))"

text \<open>
  \<open>create_metrics_cards\<close> (lines 107 to 121): the four values are computed before the first
  card, so a missing column shows no card.
\<close>

definition create_metrics_cards :: "dataframe \<Rightarrow> erro + metrica list" where
  "create_metrics_cards df =
     (if \<not> tem df ''STATUS'' then Inl (KeyError ''STATUS'')
      else if \<not> tem df ''VENDA REALIZADA'' then Inl (KeyError ''VENDA REALIZADA'')
      else if \<not> tem df ''VALOR_NUM'' then Inl (KeyError ''VALOR_NUM'')
      else Inr [(Card_Total_Agendamentos, Contagem (total_agendamentos df)),
                (Card_Calls_Realizadas, Contagem (calls_realizadas df)),
                (Card_Vendas_Fechadas, Contagem (vendas_ganhas df)),
                (Card_Receita_Total, Reais (receita_total df))])"

definition taxa_show :: "dataframe \<Rightarrow> pyfloat" where
  "taxa_show df = taxa (calls_realizadas df) (total_agendamentos df)"

definition taxa_conversao :: "dataframe \<Rightarrow> pyfloat" where
  "taxa_conversao df = taxa (vendas_ganhas df) (calls_realizadas df)"

definition taxa_no_show :: "dataframe \<Rightarrow> pyfloat" where
  "taxa_no_show df = taxa (no_shows df) (total_agendamentos df)"

text \<open>The frame \<open>df_ciclo\<close> of line 406 (the same selection as line 144), and its column.\<close>

definition df_ciclo :: "dataframe \<Rightarrow> reg list" where
  "df_ciclo df = filter ciclo_valido (regs df)"

definition ciclos :: "dataframe \<Rightarrow> pyfloat list" where
  "ciclos df = map CICLO_DE_VENDAS (df_ciclo df)"

definition ciclo_medio :: "dataframe \<Rightarrow> pyfloat" where
  "ciclo_medio df = media (ciclos df)"

text \<open>
  \<open>dashboard_geral\<close>, lines 123 to 153: the cards it shows, in order, and the exception
  that ended it, if any.  The rates of lines 139 to 141 are computed before line 144 reads
  the column \<open>CICLO DE VENDAS\<close>; the second row of cards is shown after it.  The charts of
  lines 155 to 198 are not modelled.
\<close>

definition dashboard_geral :: "dataframe \<Rightarrow> metrica list \<times> erro option" where
  "dashboard_geral df =
     (case create_metrics_cards df of
        Inl e \<Rightarrow> ([], Some e)
      | Inr cartoes \<Rightarrow>
          if \<not> tem df ''CICLO DE VENDAS'' then (cartoes, Some (KeyError ''CICLO DE VENDAS''))
          else (cartoes @
                [(Card_Taxa_de_Show, Porcento (taxa_show df)),
                 (Card_Taxa_de_Conversao, Porcento (taxa_conversao df)),
                 (Card_Taxa_de_No_Show, Porcento (taxa_no_show df)),
                 (Card_Ciclo_Medio,
                    if ciclo_medio df \<noteq> NaN then Dias (ciclo_medio df) else N_A)],
                None))"

text \<open>One row of \<open>vendedor_stats\<close> (lines 237 to 245).\<close>

record linha_closer =
  Vendedor :: string
  Calls_Realizadas :: nat
  Vendas :: nat
  Receita :: pyfloat
  Taxa_Conversao :: pyfloat

definition vendedor_stats :: "dataframe \<Rightarrow> linha_closer list" where
  "vendedor_stats df =
     map (\<lambda>k. let g = filter (\<lambda>r. CLOSER r = k) (regs df) in
            \<lparr> Vendedor = k,
              Calls_Realizadas = contar call_realizada g,
              Vendas = contar ganho g,
              Receita = soma (map VALOR_NUM (filter ganho g)),
              Taxa_Conversao = taxa_series (contar ganho g) (contar call_realizada g) \<rparr>)
         (chaves (map CLOSER (regs df)))"

text \<open>
  \<open>dashboard_vendedores\<close> (lines 200 to 264): the options of the selector, the four cards
  of the selected closer, the table \<open>vendedor_stats\<close> and the two bar charts drawn from it
  (the x and y values of each bar).
\<close>

record painel_vendedores =
  closers :: "string list"
  cartoes_closer :: "metrica list"
  tabela_closers :: "linha_closer list"
  grafico_taxa :: "(string \<times> pyfloat) list"
  grafico_receita :: "(string \<times> pyfloat) list"

definition dashboard_vendedores :: "dataframe \<Rightarrow> string \<Rightarrow> erro + painel_vendedores" where
  "dashboard_vendedores df selected_closer =
     (if \<not> tem df ''CLOSER'' then Inl (KeyError ''CLOSER'')
      else if \<not> tem df ''STATUS'' then Inl (KeyError ''STATUS'')
      else if \<not> tem df ''VENDA REALIZADA'' then Inl (KeyError ''VENDA REALIZADA'')
      else if \<not> tem df ''VALOR_NUM'' then Inl (KeyError ''VALOR_NUM'')
      else
        (let df_filtered =
               (if selected_closer \<noteq> ''Todos''
                then filtrar (\<lambda>r. CLOSER r = selected_closer) df else df)
         in Inr \<lparr> closers = ''Todos'' # chaves (map CLOSER (regs df)),
                  cartoes_closer =
                    [(Card_Calls_Realizadas, Contagem (calls_realizadas df_filtered)),
                     (Card_Vendas_Fechadas, Contagem (vendas_ganhas df_filtered)),
                     (Card_Taxa_de_Conversao, Porcento (taxa_conversao df_filtered)),
                     (Card_Receita_Total, Reais (receita_total df_filtered))],
                  tabela_closers = vendedor_stats df,
                  grafico_taxa = map (\<lambda>l. (Vendedor l, Taxa_Conversao l)) (vendedor_stats df),
                  grafico_receita = map (\<lambda>l. (Vendedor l, Receita l)) (vendedor_stats df) \<rparr>))"

text \<open>One row of \<open>funil_complete\<close> (lines 389 to 397 of \<open>dashboard_funis\<close>).\<close>

record linha_funil =
  Funil :: string
  Total_Agendamentos :: nat
  Calls_Realizadas_Funil :: nat
  No_Shows :: nat
  Vendas_Funil :: nat
  Receita_Funil :: pyfloat
  Taxa_Show :: pyfloat
  Taxa_Conversao_Funil :: pyfloat

definition funil_complete :: "dataframe \<Rightarrow> linha_funil list" where
  "funil_complete df =
     map (\<lambda>k. let g = filter (\<lambda>r. FUNIL r = k) (regs df) in
            \<lparr> Funil = k,
              Total_Agendamentos = length g,
              Calls_Realizadas_Funil = contar call_realizada g,
              No_Shows = contar no_show g,
              Vendas_Funil = contar ganho g,
              Receita_Funil = soma (map VALOR_NUM (filter ganho g)),
              Taxa_Show = taxa_series (contar call_realizada g) (length g),
              Taxa_Conversao_Funil = taxa_series (contar ganho g) (contar call_realizada g) \<rparr>)
         (chaves (map FUNIL (regs df)))"

text \<open>
  \<open>dashboard_ciclo_vendas\<close>, lines 401 to 426: the warning of line 409, or the four
  statistics of the cards.  The charts and tables by funnel and closer (lines 428 to 468)
  are not modelled.
\<close>

datatype painel_ciclo = Aviso_Sem_Dados | Ciclos pyfloat pyfloat pyfloat pyfloat

definition dashboard_ciclo_vendas :: "dataframe \<Rightarrow> erro + painel_ciclo" where
  "dashboard_ciclo_vendas df =
     (if \<not> tem df ''CICLO DE VENDAS'' then Inl (KeyError ''CICLO DE VENDAS'')
      else
        if length (df_ciclo df) = 0 then Inr Aviso_Sem_Dados
        else Inr (Ciclos (media (ciclos df)) (mediana (ciclos df))
                    (minimo (ciclos df)) (maximo (ciclos df))))"

section \<open>The global filters of \<open>main\<close>\<close>

text \<open>
  What the widgets of the sidebar returned in one run of the script: \<open>st.date_input\<close> with a
  range returns a tuple of zero, one or two dates, the check box a bool, and each
  \<open>selectbox\<close> one of the options it was given.
\<close>

record ui =
  agendamento_date :: "timestamp list"
  usar_filtro_venda :: bool
  venda_date :: "timestamp list"
  selected_produto :: string
  selected_funil :: string
  selected_status :: string

text \<open>Lines 504 and 505.\<close>

definition filtro_agendamento :: "timestamp \<Rightarrow> timestamp \<Rightarrow> dataframe \<Rightarrow> dataframe" where
  "filtro_agendamento start_date end_date df =
     filtrar (\<lambda>r. ts_ge (DATA r) start_date \<and> ts_le (DATA r) end_date) df"

text \<open>Lines 527 to 530: \<open>mask_vendas | mask_sem_venda\<close>.\<close>

definition filtro_venda :: "timestamp \<Rightarrow> timestamp \<Rightarrow> dataframe \<Rightarrow> dataframe" where
  "filtro_venda start_date end_date df =
     filtrar (\<lambda>r. (ts_ge (DIA_DA_VENDA r) start_date \<and> ts_le (DIA_DA_VENDA r) end_date)
                  \<or> DIA_DA_VENDA r = None) df"

text \<open>Lines 538 to 539, 544 to 545 and 550 to 551.\<close>

definition filtro_produto :: "string \<Rightarrow> dataframe \<Rightarrow> dataframe" where
  "filtro_produto selected df =
     (if selected \<noteq> ''Todos'' then filtrar (\<lambda>r. PRODUTO r = Some selected) df else df)"

definition filtro_funil :: "string \<Rightarrow> dataframe \<Rightarrow> dataframe" where
  "filtro_funil selected df =
     (if selected \<noteq> ''Todos'' then filtrar (\<lambda>r. FUNIL r = selected) df else df)"

definition filtro_status :: "string \<Rightarrow> dataframe \<Rightarrow> dataframe" where
  "filtro_status selected df =
     (if selected \<noteq> ''Todos'' then filtrar (\<lambda>r. STATUS r = selected) df else df)"

text \<open>Lines 491 to 505: the filter on the scheduling date.\<close>

definition passo_agendamento :: "ui \<Rightarrow> dataframe \<Rightarrow> dataframe" where
  "passo_agendamento u df =
     (if tem df ''DATA'' then
        (case agendamento_date u of
           [start_date, end_date] \<Rightarrow> filtro_agendamento start_date end_date df
         | _ \<Rightarrow> df)
      else df)"

definition ts_min :: "timestamp list \<Rightarrow> timestamp" where
  "ts_min ds = foldl (\<lambda>a b. if date_le a b then a else b) (hd ds) (tl ds)"

definition ts_max :: "timestamp list \<Rightarrow> timestamp" where
  "ts_max ds = foldl (\<lambda>a b. if date_le a b then b else a) (hd ds) (tl ds)"

text \<open>
  Lines 508 to 530: the filter on the sale date.  The first component is the request for a
  range of sale dates: \<open>None\<close> when \<open>st.sidebar.date_input\<close> of line 515 is not called,
  otherwise the default range it is called with (\<open>ts_min\<close> and \<open>ts_max\<close> are only applied
  to the dates of \<open>vendas_com_data\<close>, which is not empty there).
\<close>

definition passo_venda :: "ui \<Rightarrow> dataframe \<Rightarrow> (timestamp \<times> timestamp) option \<times> dataframe" where
  "passo_venda u df =
     (if tem df ''DIA DA VENDA'' \<and> usar_filtro_venda u then
        (let vendas_com_data = map the (filter (\<lambda>d. d \<noteq> None) (map DIA_DA_VENDA (regs df))) in
         if length vendas_com_data > 0 then
           (Some (ts_min vendas_com_data, ts_max vendas_com_data),
            case venda_date u of
              [start_date, end_date] \<Rightarrow> filtro_venda start_date end_date df
            | _ \<Rightarrow> df)
         else (None, df))
      else (None, df))"

text \<open>The options of a selector: \<open>['Todos'] + sorted(col.dropna().unique().tolist())\<close>.\<close>

definition opcoes :: "string list \<Rightarrow> string list" where
  "opcoes vs = ''Todos'' # chaves vs"

definition opcoes_produto :: "dataframe \<Rightarrow> string list" where
  "opcoes_produto df = opcoes (dropna (map PRODUTO (regs df)))"

definition opcoes_funil :: "dataframe \<Rightarrow> string list" where
  "opcoes_funil df = opcoes (map FUNIL (regs df))"

definition opcoes_status :: "dataframe \<Rightarrow> string list" where
  "opcoes_status df = opcoes (map STATUS (regs df))"

text \<open>
  The sidebar of one run: the request for the sale-date range, the three lists of options
  and the filtered frame that the five tabs receive.
\<close>

record sidebar =
  periodo_venda :: "(timestamp \<times> timestamp) option"
  produtos :: "string list"
  funis :: "string list"
  status_options :: "string list"
  df_filtrado :: dataframe

text \<open>Lines 487 to 554 of \<open>main\<close>, on a frame that was loaded and is not empty.\<close>

definition filtros :: "ui \<Rightarrow> dataframe \<Rightarrow> erro + sidebar" where
  "filtros u df0 =
     (let df1 = passo_agendamento u df0;
          df2 = snd (passo_venda u df1)
      in if \<not> tem df2 ''PRODUTO'' then Inl (KeyError ''PRODUTO'')
         else
           (let df3 = filtro_produto (selected_produto u) df2
            in if \<not> tem df3 ''FUNIL'' then Inl (KeyError ''FUNIL'')
               else
                 (let df4 = filtro_funil (selected_funil u) df3
                  in if \<not> tem df4 ''STATUS'' then Inl (KeyError ''STATUS'')
                     else Inr \<lparr> periodo_venda = fst (passo_venda u df1),
                                produtos = opcoes_produto df2,
                                funis = opcoes_funil df3,
                                status_options = opcoes_status df4,
                                df_filtrado = filtro_status (selected_status u) df4 \<rparr>)))"

text \<open>
  \<open>main\<close>, lines 480 to 554: \<open>Sem_Dados\<close> is the error page of line 593, shown when
  \<open>load_data\<close> returned \<open>None\<close> or an empty frame.
\<close>

datatype resultado = Sem_Dados | Falha erro | Painel sidebar

definition main :: "ui \<Rightarrow> dataframe option \<Rightarrow> resultado" where
  "main u carregado =
     (case carregado of
        None \<Rightarrow> Sem_Dados
      | Some df \<Rightarrow>
          if regs df = [] \<or> colunas df = [] then Sem_Dados
          else (case filtros u df of Inl e \<Rightarrow> Falha e | Inr s \<Rightarrow> Painel s))"

text \<open>
  The five filters as values, and a filter applied to a frame: the order in which two of
  them are applied can then be exchanged.
\<close>

datatype filtro =
    Por_Agendamento timestamp timestamp
  | Por_Venda timestamp timestamp
  | Por_Produto string
  | Por_Funil string
  | Por_Status string

fun aplicar :: "filtro \<Rightarrow> dataframe \<Rightarrow> dataframe" where
  "aplicar (Por_Agendamento a b) df = filtro_agendamento a b df"
| "aplicar (Por_Venda a b) df = filtro_venda a b df"
| "aplicar (Por_Produto s) df = filtro_produto s df"
| "aplicar (Por_Funil s) df = filtro_funil s df"
| "aplicar (Por_Status s) df = filtro_status s df"

text \<open>The predicate of a filter on one record, for the conjunction of two filters.\<close>

fun aceita :: "filtro \<Rightarrow> reg \<Rightarrow> bool" where
  "aceita (Por_Agendamento a b) r = (ts_ge (DATA r) a \<and> ts_le (DATA r) b)"
| "aceita (Por_Venda a b) r =
     ((ts_ge (DIA_DA_VENDA r) a \<and> ts_le (DIA_DA_VENDA r) b) \<or> DIA_DA_VENDA r = None)"
| "aceita (Por_Produto s) r = (s = ''Todos'' \<or> PRODUTO r = Some s)"
| "aceita (Por_Funil s) r = (s = ''Todos'' \<or> FUNIL r = s)"
| "aceita (Por_Status s) r = (s = ''Todos'' \<or> STATUS r = s)"

section \<open>Sheets used as concrete inputs\<close>



text \<open>
  A sheet with every column the script reads: one scheduling that was a no-show, and one
  call that ended in a sale.
\<close>

definition planilha_completa :: "string list list" where
  "planilha_completa =
     [[''DATA'', ''SDR'', ''CLOSER'', ''FUNIL'', ''PRODUTO'', ''STATUS'', ''VENDA REALIZADA'',
       ''VALOR'', ''DIA DA VENDA'', ''CICLO DE VENDAS''],
      [''01/03/2024'', ''Ana'', ''Bruno'', ''Inbound'', ''A'', ''No Show'', '''', '''', '''', ''''],
      [''02/03/2024'', ''Ana'', ''Carla'', ''Outbound'', ''B'', ''Call Realizada'', ''Ganho'',
       ''R$ 2.500,00'', ''05/03/2024'', ''3'']]"

definition df_completa :: dataframe where
  "df_completa = the (load_data leitor_decimal planilha_completa)"

text \<open>The widgets left as they start: both date ranges whole, every selector on \<open>Todos\<close>.\<close>

definition ui_inicial :: ui where
  "ui_inicial =
     \<lparr> agendamento_date = [Timestamp 2024 3 1, Timestamp 2024 3 2],
       usar_filtro_venda = False,
       venda_date = [],
       selected_produto = ''Todos'',
       selected_funil = ''Todos'',
       selected_status = ''Todos'' \<rparr>"

text \<open>
  Three schedulings for the two date filters: one without a sale date, one without a
  scheduling date, one whose sale date is outside the range chosen in \<open>ui_periodos\<close>.
\<close>

definition planilha_periodos :: "string list list" where
  "planilha_periodos =
     [[''DATA'', ''STATUS'', ''DIA DA VENDA''],
      [''01/03/2024'', ''No Show'', ''''],
      ['''', ''Call Realizada'', ''05/03/2024''],
      [''02/03/2024'', ''Call Realizada'', ''20/03/2024'']]"

definition df_periodos :: dataframe where
  "df_periodos = the (load_data leitor_decimal planilha_periodos)"

definition ui_periodos :: ui where
  "ui_periodos =
     \<lparr> agendamento_date = [Timestamp 2024 3 1, Timestamp 2024 3 2],
       usar_filtro_venda = True,
       venda_date = [Timestamp 2024 3 1, Timestamp 2024 3 10],
       selected_produto = ''Todos'',
       selected_funil = ''Todos'',
       selected_status = ''Todos'' \<rparr>"

text \<open>The complete sheet before any sale: the column \<open>DIA DA VENDA\<close> is there and empty.\<close>

definition planilha_sem_vendas :: "string list list" where
  "planilha_sem_vendas =
     [[''DATA'', ''SDR'', ''CLOSER'', ''FUNIL'', ''PRODUTO'', ''STATUS'', ''VENDA REALIZADA'',
       ''VALOR'', ''DIA DA VENDA'', ''CICLO DE VENDAS''],
      [''01/03/2024'', ''Ana'', ''Bruno'', ''Inbound'', ''A'', ''No Show'', '''', '''', '''', ''''],
      [''02/03/2024'', ''Ana'', ''Carla'', ''Outbound'', ''B'', ''Call Realizada'', '''', '''',
       '''', '''']]"

definition df_sem_vendas :: dataframe where
  "df_sem_vendas = the (load_data leitor_decimal planilha_sem_vendas)"



text \<open>The same widgets with the product \<open>A\<close> selected.\<close>

definition ui_produto_A :: ui where
  "ui_produto_A = ui_inicial\<lparr>selected_produto := ''A''\<rparr>"

section \<open>Currency parsing (claim C5)\<close>






section \<open>Date parsing (claim C6)\<close>













section \<open>The date filters (claims C2 and C10)\<close>

lemma regs_filtrar [simp]: "regs (filtrar p df) = filter p (regs df)"
  by (simp add: filtrar_def)

lemma colunas_filtrar [simp]: "colunas (filtrar p df) = colunas df"
  by (simp add: filtrar_def)

lemma tem_filtrar [simp]: "tem (filtrar p df) nome = tem df nome"
  by (simp add: tem_def)

lemma filtrar_filtrar: "filtrar p (filtrar q df) = filtrar (\<lambda>r. q r \<and> p r) df"
  by (simp add: filtrar_def)

lemma filtrar_tudo: "filtrar (\<lambda>r. True) df = df"
  by (simp add: filtrar_def)

text \<open>
  Claim C2.  With both ends of a range chosen, the filter on the scheduling date drops
  every record whose \<open>DATA\<close> is NaT and keeps a dated record exactly when its date lies in
  the closed interval; the enabled filter on the sale date keeps every record whose
  \<open>DIA DA VENDA\<close> is NaT and keeps a record with a sale date exactly when that date lies in
  the closed interval.
\<close>

theorem filtros_de_data:
  assumes "tem df ''DATA''" and "agendamento_date u = [a, b]"
    and "tem df ''DIA DA VENDA''" and "usar_filtro_venda u" and "venda_date u = [c, e]"
  shows "(DATA r = None \<longrightarrow> r \<notin> set (regs (passo_agendamento u df)))
       \<and> (r \<in> set (regs df) \<and> DATA r = Some d \<longrightarrow>
            (r \<in> set (regs (passo_agendamento u df))) = (date_le a d \<and> date_le d b))
       \<and> (r \<in> set (regs df) \<and> DIA_DA_VENDA r = None \<longrightarrow>
            r \<in> set (regs (snd (passo_venda u df))))
       \<and> (r \<in> set (regs df) \<and> DIA_DA_VENDA r = Some d \<longrightarrow>
            (r \<in> set (regs (snd (passo_venda u df)))) = (date_le c d \<and> date_le d e))"
proof (intro conjI impI)
  have ag: "passo_agendamento u df = filtro_agendamento a b df"
    using assms(1,2) by (simp add: passo_agendamento_def)
  show "r \<notin> set (regs (passo_agendamento u df))" if "DATA r = None"
    using that by (simp add: ag filtro_agendamento_def ts_ge_def)
  show "(r \<in> set (regs (passo_agendamento u df))) = (date_le a d \<and> date_le d b)"
    if "r \<in> set (regs df) \<and> DATA r = Some d"
    using that by (simp add: ag filtro_agendamento_def ts_ge_def ts_le_def)
  show "r \<in> set (regs (snd (passo_venda u df)))"
    if "r \<in> set (regs df) \<and> DIA_DA_VENDA r = None"
    using that assms(3,4,5) by (simp add: passo_venda_def Let_def filtro_venda_def)
  show "(r \<in> set (regs (snd (passo_venda u df)))) = (date_le c d \<and> date_le d e)"
    if h: "r \<in> set (regs df) \<and> DIA_DA_VENDA r = Some d"
  proof -
    from h have "Some d \<in> set (filter (\<lambda>d. d \<noteq> None) (map DIA_DA_VENDA (regs df)))"
      by force
    then have "filter (\<lambda>d. d \<noteq> None) (map DIA_DA_VENDA (regs df)) \<noteq> []"
      by (metis empty_iff empty_set)
    then have "snd (passo_venda u df) = filtro_venda c e df"
      using assms(3,4,5) by (simp add: passo_venda_def Let_def)
    with h show ?thesis
      by (simp add: filtro_venda_def ts_ge_def ts_le_def)
  qed
qed

text \<open>
  Claim C10.  With the check box ticked and no record of the scheduling-filtered frame
  bearing a sale date, line 515 is not reached: no range of sale dates is requested and the
  frame goes on unchanged.
\<close>

theorem sem_datas_de_venda:
  assumes "usar_filtro_venda u"
    and "\<forall>r \<in> set (regs (passo_agendamento u df)). DIA_DA_VENDA r = None"
  shows "passo_venda u (passo_agendamento u df) = (None, passo_agendamento u df)
       \<and> (case filtros u df of Inl x \<Rightarrow> True | Inr s \<Rightarrow> periodo_venda s = None)"
proof -
  from assms(2)
  have "filter (\<lambda>d. d \<noteq> None) (map DIA_DA_VENDA (regs (passo_agendamento u df))) = []"
    by (auto simp: filter_empty_conv)
  then have p: "passo_venda u (passo_agendamento u df) = (None, passo_agendamento u df)"
    by (simp add: passo_venda_def Let_def)
  then show ?thesis
    by (auto simp: filtros_def Let_def split: sum.splits if_splits)
qed

section \<open>Composition of filters (claim C8)\<close>

lemma aceita_eqs:
  "aceita (Por_Agendamento a b) = (\<lambda>r. ts_ge (DATA r) a \<and> ts_le (DATA r) b)"
  "aceita (Por_Venda a b) =
     (\<lambda>r. (ts_ge (DIA_DA_VENDA r) a \<and> ts_le (DIA_DA_VENDA r) b) \<or> DIA_DA_VENDA r = None)"
  "aceita (Por_Produto s) = (\<lambda>r. s = ''Todos'' \<or> PRODUTO r = Some s)"
  "aceita (Por_Funil s) = (\<lambda>r. s = ''Todos'' \<or> FUNIL r = s)"
  "aceita (Por_Status s) = (\<lambda>r. s = ''Todos'' \<or> STATUS r = s)"
  by (rule ext, simp)+

lemma aplicar_filtrar: "aplicar f df = filtrar (aceita f) df"
  by (cases f)
     (auto simp: aceita_eqs filtro_agendamento_def filtro_venda_def filtro_produto_def
        filtro_funil_def filtro_status_def filtrar_tudo)

text \<open>
  Claim C8.  Any two of the five filters (the two date ranges and the three categorical
  equalities, with their sentinel \<open>Todos\<close>) give the same frame in either order, and that
  frame holds the records that both predicates accept.
\<close>

theorem filtros_comutam:
  "aplicar f (aplicar g df) = aplicar g (aplicar f df)
   \<and> aplicar f (aplicar g df) = filtrar (\<lambda>r. aceita f r \<and> aceita g r) df"
proof -
  have "(\<lambda>r. aceita g r \<and> aceita f r) = (\<lambda>r. aceita f r \<and> aceita g r)"
    by auto
  then show ?thesis
    by (simp add: aplicar_filtrar filtrar_filtrar)
qed

theorem filtros_de_data_witness:
  "tem df_periodos ''DATA'' \<and> tem df_periodos ''DIA DA VENDA''
   \<and> agendamento_date ui_periodos = [Timestamp 2024 3 1, Timestamp 2024 3 2]
   \<and> usar_filtro_venda ui_periodos
   \<and> venda_date ui_periodos = [Timestamp 2024 3 1, Timestamp 2024 3 10]
   \<and> map DATA (regs df_periodos)
       = [Some (Timestamp 2024 3 1), None, Some (Timestamp 2024 3 2)]
   \<and> map DIA_DA_VENDA (regs df_periodos)
       = [None, Some (Timestamp 2024 3 5), Some (Timestamp 2024 3 20)]
   \<and> regs df_periodos ! 1 \<notin> set (regs (passo_agendamento ui_periodos df_periodos))
   \<and> regs df_periodos ! 0 \<in> set (regs (snd (passo_venda ui_periodos df_periodos)))
   \<and> regs df_periodos ! 1 \<in> set (regs (snd (passo_venda ui_periodos df_periodos)))
   \<and> regs df_periodos ! 2 \<notin> set (regs (snd (passo_venda ui_periodos df_periodos)))"
proof -
  have t: "tem df_periodos ''DATA''" "tem df_periodos ''DIA DA VENDA''"
    by code_simp+
  have u: "agendamento_date ui_periodos = [Timestamp 2024 3 1, Timestamp 2024 3 2]"
    "usar_filtro_venda ui_periodos"
    "venda_date ui_periodos = [Timestamp 2024 3 1, Timestamp 2024 3 10]"
    by (simp_all add: ui_periodos_def)
  have d: "map DATA (regs df_periodos)
           = [Some (Timestamp 2024 3 1), None, Some (Timestamp 2024 3 2)]"
    and v: "map DIA_DA_VENDA (regs df_periodos)
           = [None, Some (Timestamp 2024 3 5), Some (Timestamp 2024 3 20)]"
    by code_simp+
  have n: "length (regs df_periodos) = 3"
    by code_simp
  have "DATA (regs df_periodos ! 1) = map DATA (regs df_periodos) ! 1"
    using n by simp
  with d have d1: "DATA (regs df_periodos ! 1) = None"
    by simp
  have "DIA_DA_VENDA (regs df_periodos ! 0) = map DIA_DA_VENDA (regs df_periodos) ! 0"
    "DIA_DA_VENDA (regs df_periodos ! 1) = map DIA_DA_VENDA (regs df_periodos) ! 1"
    "DIA_DA_VENDA (regs df_periodos ! 2) = map DIA_DA_VENDA (regs df_periodos) ! 2"
    using n by simp_all
  with v have v0: "DIA_DA_VENDA (regs df_periodos ! 0) = None"
    and v1: "DIA_DA_VENDA (regs df_periodos ! 1) = Some (Timestamp 2024 3 5)"
    and v2: "DIA_DA_VENDA (regs df_periodos ! 2) = Some (Timestamp 2024 3 20)"
    by simp_all
  have m: "regs df_periodos ! 0 \<in> set (regs df_periodos)"
    "regs df_periodos ! 1 \<in> set (regs df_periodos)"
    "regs df_periodos ! 2 \<in> set (regs df_periodos)"
    using n by simp_all
  have r: "date_le (Timestamp 2024 3 1) (Timestamp 2024 3 5)"
    "date_le (Timestamp 2024 3 5) (Timestamp 2024 3 10)"
    "\<not> date_le (Timestamp 2024 3 20) (Timestamp 2024 3 10)"
    by (simp_all add: date_le_def)
  note f = filtros_de_data [OF t(1) u(1) t(2) u(2) u(3)]
  from f [of "regs df_periodos ! 1"] d1
  have a1: "regs df_periodos ! 1 \<notin> set (regs (passo_agendamento ui_periodos df_periodos))"
    by blast
  from f [of "regs df_periodos ! 0"] v0 m(1)
  have b0: "regs df_periodos ! 0 \<in> set (regs (snd (passo_venda ui_periodos df_periodos)))"
    by blast
  from f [of "regs df_periodos ! 1" "Timestamp 2024 3 5"] v1 m(2) r
  have b1: "regs df_periodos ! 1 \<in> set (regs (snd (passo_venda ui_periodos df_periodos)))"
    by blast
  from f [of "regs df_periodos ! 2" "Timestamp 2024 3 20"] v2 m(3) r
  have b2: "regs df_periodos ! 2 \<notin> set (regs (snd (passo_venda ui_periodos df_periodos)))"
    by blast
  from t u d v a1 b0 b1 b2 show ?thesis by simp
qed

theorem sem_datas_de_venda_witness:
  "usar_filtro_venda ui_periodos
   \<and> tem df_sem_vendas ''DIA DA VENDA''
   \<and> map DIA_DA_VENDA (regs (passo_agendamento ui_periodos df_sem_vendas)) = [None, None]
   \<and> passo_venda ui_periodos (passo_agendamento ui_periodos df_sem_vendas)
       = (None, passo_agendamento ui_periodos df_sem_vendas)
   \<and> map_sum id periodo_venda (filtros ui_periodos df_sem_vendas) = Inr None"
proof -
  have u: "usar_filtro_venda ui_periodos"
    by (simp add: ui_periodos_def)
  have t: "tem df_sem_vendas ''DIA DA VENDA''"
    by code_simp
  have v: "map DIA_DA_VENDA (regs (passo_agendamento ui_periodos df_sem_vendas)) = [None, None]"
    by code_simp
  then have "set (map DIA_DA_VENDA (regs (passo_agendamento ui_periodos df_sem_vendas))) = {None}"
    by simp
  then have a: "\<forall>r \<in> set (regs (passo_agendamento ui_periodos df_sem_vendas)).
                  DIA_DA_VENDA r = None"
    by auto
  have i: "\<not> isl (filtros ui_periodos df_sem_vendas)"
    by code_simp
  from sem_datas_de_venda [OF u a] i
  have "map_sum id periodo_venda (filtros ui_periodos df_sem_vendas) = Inr None"
    by (cases "filtros ui_periodos df_sem_vendas") auto
  with sem_datas_de_venda [OF u a] u t v show ?thesis by simp
qed

section \<open>The sales-cycle statistics (claim C7)\<close>

lemma ciclo_valido_iff:
  "ciclo_valido r \<longleftrightarrow>
     CICLO_DE_VENDAS r = PInf \<or> (\<exists>q. 0 < q \<and> CICLO_DE_VENDAS r = Fin q)"
  by (cases "CICLO_DE_VENDAS r") (auto simp: ciclo_valido_def)

lemma ciclos_positivos:
  assumes "v \<in> set (ciclos df)"
  shows "v = PInf \<or> (\<exists>q. 0 < q \<and> v = Fin q)"
  using assms by (auto simp: ciclos_def df_ciclo_def ciclo_valido_iff)

lemma fadd_positivo:
  assumes "a = PInf \<or> (\<exists>q. 0 \<le> q \<and> a = Fin q)"
    and "b = PInf \<or> (\<exists>q. 0 < q \<and> b = Fin q)"
  shows "fadd a b = PInf \<or> (\<exists>q. 0 \<le> q \<and> fadd a b = Fin q)"
  using assms by (cases a; cases b) auto

lemma foldl_fadd_positivo:
  assumes "\<forall>v \<in> set vs. v = PInf \<or> (\<exists>q. 0 < q \<and> v = Fin q)"
    and "a = PInf \<or> (\<exists>q. 0 \<le> q \<and> a = Fin q)"
  shows "foldl fadd a vs = PInf \<or> (\<exists>q. 0 \<le> q \<and> foldl fadd a vs = Fin q)"
  using assms
proof (induction vs arbitrary: a)
  case Nil
  then show ?case by simp
next
  case (Cons v vs)
  from Cons.prems have "fadd a v = PInf \<or> (\<exists>q. 0 \<le> q \<and> fadd a v = Fin q)"
    by (intro fadd_positivo) auto
  with Cons.IH [of "fadd a v"] Cons.prems(1) show ?case
    by simp
qed

lemma media_positivos:
  assumes "\<forall>v \<in> set vs. v = PInf \<or> (\<exists>q. 0 < q \<and> v = Fin q)" and "vs \<noteq> []"
  shows "media vs \<noteq> NaN"
proof -
  from assms(1) have f: "filter (\<lambda>v. v \<noteq> NaN) vs = vs"
    by (auto simp: filter_id_conv)
  from assms(1)
  have "foldl fadd (Fin 0) vs = PInf \<or> (\<exists>q. 0 \<le> q \<and> foldl fadd (Fin 0) vs = Fin q)"
    by (intro foldl_fadd_positivo) auto
  then have "fdiv_nat (soma vs) (length vs) \<noteq> NaN"
    by (auto simp: soma_def f)
  with assms(2) show ?thesis
    by (simp add: media_def f)
qed

text \<open>
  Claim C7.  The mean, median, minimum and maximum of the sales cycle are taken over
  \<open>ciclos df\<close>, the cycle values of the records whose cycle is not NaN and is strictly
  positive: two frames with the same such records give the same statistics.  When no
  record qualifies, the cycle dashboard gives its warning and the overview card reads N/A,
  neither of which is the value zero; when some record qualifies the mean is a number.
\<close>

theorem estatisticas_do_ciclo:
  assumes "tem df ''CICLO DE VENDAS''"
  shows "(df_ciclo df = [] \<longrightarrow>
            dashboard_ciclo_vendas df = Inr Aviso_Sem_Dados \<and> ciclo_medio df = NaN)
       \<and> (df_ciclo df \<noteq> [] \<longrightarrow>
            dashboard_ciclo_vendas df
              = Inr (Ciclos (media (ciclos df)) (mediana (ciclos df))
                       (minimo (ciclos df)) (maximo (ciclos df)))
            \<and> ciclo_medio df \<noteq> NaN)
       \<and> (\<forall>v \<in> set (ciclos df). v = PInf \<or> (\<exists>q. 0 < q \<and> v = Fin q))
       \<and> (snd (dashboard_geral df) = None \<longrightarrow>
            last (fst (dashboard_geral df))
              = (Card_Ciclo_Medio, if df_ciclo df = [] then N_A else Dias (media (ciclos df))))
       \<and> (colunas df' = colunas df \<and> df_ciclo df' = df_ciclo df \<longrightarrow>
            dashboard_ciclo_vendas df' = dashboard_ciclo_vendas df
            \<and> ciclo_medio df' = ciclo_medio df)
       \<and> Aviso_Sem_Dados \<noteq> Ciclos (Fin 0) (Fin 0) (Fin 0) (Fin 0)
       \<and> N_A \<noteq> Dias (Fin 0)"
proof (intro conjI impI ballI)
  show "dashboard_ciclo_vendas df = Inr Aviso_Sem_Dados" if "df_ciclo df = []"
    using that assms by (simp add: dashboard_ciclo_vendas_def)
  show "ciclo_medio df = NaN" if "df_ciclo df = []"
    using that by (simp add: ciclo_medio_def ciclos_def media_def)
  show "dashboard_ciclo_vendas df
          = Inr (Ciclos (media (ciclos df)) (mediana (ciclos df))
                   (minimo (ciclos df)) (maximo (ciclos df)))" if "df_ciclo df \<noteq> []"
    using that assms by (simp add: dashboard_ciclo_vendas_def)
  show n: "ciclo_medio df \<noteq> NaN" if "df_ciclo df \<noteq> []"
  proof -
    from that have "ciclos df \<noteq> []" by (simp add: ciclos_def)
    then show ?thesis
      unfolding ciclo_medio_def using ciclos_positivos by (intro media_positivos) auto
  qed
  show "v = PInf \<or> (\<exists>q. 0 < q \<and> v = Fin q)" if "v \<in> set (ciclos df)" for v
    using that by (rule ciclos_positivos)
  show "last (fst (dashboard_geral df))
          = (Card_Ciclo_Medio, if df_ciclo df = [] then N_A else Dias (media (ciclos df)))"
    if "snd (dashboard_geral df) = None"
  proof (cases "df_ciclo df = []")
    case True
    then have "ciclo_medio df = NaN"
      by (simp add: ciclo_medio_def ciclos_def media_def)
    with that True show ?thesis
      by (auto simp: dashboard_geral_def split: sum.splits if_splits)
  next
    case False
    then have "ciclo_medio df \<noteq> NaN" by (rule n)
    with that False show ?thesis
      by (auto simp: dashboard_geral_def ciclo_medio_def split: sum.splits if_splits)
  qed
  show "dashboard_ciclo_vendas df' = dashboard_ciclo_vendas df"
    if "colunas df' = colunas df \<and> df_ciclo df' = df_ciclo df"
    using that by (simp add: dashboard_ciclo_vendas_def ciclos_def tem_def)
  show "ciclo_medio df' = ciclo_medio df"
    if "colunas df' = colunas df \<and> df_ciclo df' = df_ciclo df"
    using that by (simp add: ciclo_medio_def ciclos_def)
qed simp_all

section \<open>Evaluation of the concrete sheets\<close>

lemmas avalia_celula =
  ler_reg_def celula_def to_datetime_def strptime_dmY_def campo_d_def campo_m_def campo_Y_def
  digito_def valor_digito_def dias_no_mes_def bissexto_def valor_num_def valor_limpo_def
  valor_texto_def astype_str_def to_numeric_def fillna0_def leitor_decimal_def strip_def
  espaco_def le_sem_sinal_def digitos_nat_def

lemma load_data_Some:
  assumes "linhas \<noteq> [] \<longrightarrow> largura linhas = length cabecalho"
    and "\<not> list_ex (\<lambda>c. 1 < count_list (map strip cabecalho) c) colunas_tratadas"
  shows "load_data le (cabecalho # linhas) =
     Some \<lparr> colunas = (if ''VALOR'' \<in> set (map strip cabecalho)
                        then map strip cabecalho @ [''VALOR_NUM''] else map strip cabecalho),
            regs = map (ler_reg le (map strip cabecalho)) linhas \<rparr>"
  using assms by (auto simp: load_data_def Let_def)

lemma reg_bruno:
  "ler_reg leitor_decimal
     [''DATA'', ''SDR'', ''CLOSER'', ''FUNIL'', ''PRODUTO'', ''STATUS'',
      ''VENDA REALIZADA'', ''VALOR'', ''DIA DA VENDA'', ''CICLO DE VENDAS'']
     [''01/03/2024'', ''Ana'', ''Bruno'', ''Inbound'', ''A'', ''No Show'', '''', '''', '''', '''']
   = \<lparr> DATA = Some (Timestamp 2024 3 1), DATA_DA_CALL = None, DIA_DA_VENDA = None,
        VALOR_NUM = Fin 0, SDR = ''Ana'', CLOSER = ''Bruno'', FUNIL = ''Inbound'',
        STATUS = ''No Show'', VENDA_REALIZADA = '''', PRODUTO = Some ''A'',
        CICLO_DE_VENDAS = NaN \<rparr>"
  by (simp add: avalia_celula)

lemma reg_carla:
  "ler_reg leitor_decimal
     [''DATA'', ''SDR'', ''CLOSER'', ''FUNIL'', ''PRODUTO'', ''STATUS'',
      ''VENDA REALIZADA'', ''VALOR'', ''DIA DA VENDA'', ''CICLO DE VENDAS'']
     [''02/03/2024'', ''Ana'', ''Carla'', ''Outbound'', ''B'', ''Call Realizada'', ''Ganho'',
      ''R$ 2.500,00'', ''05/03/2024'', ''3'']
   = \<lparr> DATA = Some (Timestamp 2024 3 2), DATA_DA_CALL = None,
        DIA_DA_VENDA = Some (Timestamp 2024 3 5), VALOR_NUM = Fin 2500,
        SDR = ''Ana'', CLOSER = ''Carla'', FUNIL = ''Outbound'',
        STATUS = ''Call Realizada'', VENDA_REALIZADA = ''Ganho'',
        PRODUTO = Some ''B'', CICLO_DE_VENDAS = Fin 3 \<rparr>"
  by (simp add: avalia_celula)

lemma load_completa:
  "load_data leitor_decimal planilha_completa =
     Some \<lparr> colunas = [''DATA'', ''SDR'', ''CLOSER'', ''FUNIL'', ''PRODUTO'', ''STATUS'',
                   ''VENDA REALIZADA'', ''VALOR'', ''DIA DA VENDA'', ''CICLO DE VENDAS'',
                   ''VALOR_NUM''],
       regs = [\<lparr> DATA = Some (Timestamp 2024 3 1), DATA_DA_CALL = None, DIA_DA_VENDA = None,
                  VALOR_NUM = Fin 0, SDR = ''Ana'', CLOSER = ''Bruno'', FUNIL = ''Inbound'',
                  STATUS = ''No Show'', VENDA_REALIZADA = '''', PRODUTO = Some ''A'',
                  CICLO_DE_VENDAS = NaN \<rparr>,
               \<lparr> DATA = Some (Timestamp 2024 3 2), DATA_DA_CALL = None,
                  DIA_DA_VENDA = Some (Timestamp 2024 3 5), VALOR_NUM = Fin 2500,
                  SDR = ''Ana'', CLOSER = ''Carla'', FUNIL = ''Outbound'',
                  STATUS = ''Call Realizada'', VENDA_REALIZADA = ''Ganho'',
                  PRODUTO = Some ''B'', CICLO_DE_VENDAS = Fin 3 \<rparr>] \<rparr>"
proof -
  have "load_data leitor_decimal planilha_completa =
     Some \<lparr> colunas = (if ''VALOR'' \<in> set (map strip (hd planilha_completa))
                        then map strip (hd planilha_completa) @ [''VALOR_NUM'']
                        else map strip (hd planilha_completa)),
            regs = map (ler_reg leitor_decimal (map strip (hd planilha_completa)))
                     (tl planilha_completa) \<rparr>"
    unfolding planilha_completa_def list.sel
    by (rule load_data_Some) (simp_all add: largura_def strip_def espaco_def colunas_tratadas_def)
  also have "\<dots> = Some \<lparr> colunas = [''DATA'', ''SDR'', ''CLOSER'', ''FUNIL'', ''PRODUTO'',
                   ''STATUS'', ''VENDA REALIZADA'', ''VALOR'', ''DIA DA VENDA'',
                   ''CICLO DE VENDAS'', ''VALOR_NUM''],
       regs = map (ler_reg leitor_decimal
                 [''DATA'', ''SDR'', ''CLOSER'', ''FUNIL'', ''PRODUTO'', ''STATUS'',
                  ''VENDA REALIZADA'', ''VALOR'', ''DIA DA VENDA'', ''CICLO DE VENDAS''])
                (tl planilha_completa) \<rparr>"
    unfolding planilha_completa_def list.sel by (simp add: strip_def espaco_def)
  finally show ?thesis
    unfolding planilha_completa_def list.sel list.map by (simp only: reg_bruno reg_carla)
qed

lemma df_completa_eq:
  "df_completa =
     \<lparr> colunas = [''DATA'', ''SDR'', ''CLOSER'', ''FUNIL'', ''PRODUTO'', ''STATUS'',
                   ''VENDA REALIZADA'', ''VALOR'', ''DIA DA VENDA'', ''CICLO DE VENDAS'',
                   ''VALOR_NUM''],
       regs = [\<lparr> DATA = Some (Timestamp 2024 3 1), DATA_DA_CALL = None, DIA_DA_VENDA = None,
                  VALOR_NUM = Fin 0, SDR = ''Ana'', CLOSER = ''Bruno'', FUNIL = ''Inbound'',
                  STATUS = ''No Show'', VENDA_REALIZADA = '''', PRODUTO = Some ''A'',
                  CICLO_DE_VENDAS = NaN \<rparr>,
               \<lparr> DATA = Some (Timestamp 2024 3 2), DATA_DA_CALL = None,
                  DIA_DA_VENDA = Some (Timestamp 2024 3 5), VALOR_NUM = Fin 2500,
                  SDR = ''Ana'', CLOSER = ''Carla'', FUNIL = ''Outbound'',
                  STATUS = ''Call Realizada'', VENDA_REALIZADA = ''Ganho'',
                  PRODUTO = Some ''B'', CICLO_DE_VENDAS = Fin 3 \<rparr>] \<rparr>"
  unfolding df_completa_def by (simp only: load_completa option.sel)

section \<open>Rates of the grouped tables (claim C1)\<close>

lemma taxa_series_vals: "taxa_series 0 0 = NaN" "taxa_series (Suc 0) (Suc 0) = Fin 100"
  by (simp_all add: taxa_series_def div_series_def rint_def)

lemma chaves_closers: "chaves [''Bruno'', ''Carla''] = [''Bruno'', ''Carla'']"
  by code_simp

lemma chaves_funis: "chaves [''Inbound'', ''Outbound''] = [''Inbound'', ''Outbound'']"
  by code_simp

lemmas avalia_painel =
  tem_def contar_def ganho_def call_realizada_def no_show_def soma_def taxa_def
  calls_realizadas_def vendas_ganhas_def receita_total_def total_agendamentos_def
  taxa_conversao_def taxa_show_def taxa_no_show_def no_shows_def

text \<open>
  Claim C1, on the sheet \<open>planilha_completa\<close>: Bruno has one scheduling and no call that
  took place.  The card of the selected closer guards the division (line 218) and shows 0;
  the table of line 243 and the funnel table of line 397 divide the two columns without a
  guard, and the rate of the group with no call is NaN.
\<close>

theorem taxa_conversao_de_grupo_sem_calls:
  "load_data leitor_decimal planilha_completa = Some df_completa
   \<and> map_sum id grafico_taxa (dashboard_vendedores df_completa ''Todos'')
       = Inr [(''Bruno'', NaN), (''Carla'', Fin 100)]
   \<and> map (\<lambda>l. (Funil l, Taxa_Conversao_Funil l)) (funil_complete df_completa)
       = [(''Inbound'', NaN), (''Outbound'', Fin 100)]
   \<and> map_sum id cartoes_closer (dashboard_vendedores df_completa ''Bruno'')
       = Inr [(Card_Calls_Realizadas, Contagem 0), (Card_Vendas_Fechadas, Contagem 0),
              (Card_Taxa_de_Conversao, Porcento (Fin 0)), (Card_Receita_Total, Reais (Fin 0))]"
proof (intro conjI)
  show "load_data leitor_decimal planilha_completa = Some df_completa"
    by (simp only: load_completa df_completa_eq)
  show "map_sum id grafico_taxa (dashboard_vendedores df_completa ''Todos'')
       = Inr [(''Bruno'', NaN), (''Carla'', Fin 100)]"
    by (simp add: df_completa_eq dashboard_vendedores_def vendedor_stats_def chaves_closers
          avalia_painel taxa_series_vals)
  show "map (\<lambda>l. (Funil l, Taxa_Conversao_Funil l)) (funil_complete df_completa)
       = [(''Inbound'', NaN), (''Outbound'', Fin 100)]"
    by (simp add: df_completa_eq funil_complete_def chaves_funis avalia_painel taxa_series_vals)
  show "map_sum id cartoes_closer (dashboard_vendedores df_completa ''Bruno'')
       = Inr [(Card_Calls_Realizadas, Contagem 0), (Card_Vendas_Fechadas, Contagem 0),
              (Card_Taxa_de_Conversao, Porcento (Fin 0)), (Card_Receita_Total, Reais (Fin 0))]"
    by (simp add: df_completa_eq dashboard_vendedores_def chaves_closers avalia_painel)
qed

theorem estatisticas_do_ciclo_witness:
  "tem df_completa ''CICLO DE VENDAS''
   \<and> tem (filtro_status ''No Show'' df_completa) ''CICLO DE VENDAS''
   \<and> df_ciclo (filtro_status ''No Show'' df_completa) = []
   \<and> dashboard_ciclo_vendas (filtro_status ''No Show'' df_completa) = Inr Aviso_Sem_Dados
   \<and> snd (dashboard_geral (filtro_status ''No Show'' df_completa)) = None
   \<and> last (fst (dashboard_geral (filtro_status ''No Show'' df_completa)))
       = (Card_Ciclo_Medio, N_A)
   \<and> ciclos df_completa = [Fin 3]
   \<and> dashboard_ciclo_vendas df_completa = Inr (Ciclos (Fin 3) (Fin 3) (Fin 3) (Fin 3))
   \<and> snd (dashboard_geral df_completa) = None
   \<and> last (fst (dashboard_geral df_completa)) = (Card_Ciclo_Medio, Dias (Fin 3))"
proof -
  let ?ns = "filtro_status ''No Show'' df_completa"
  have t: "tem df_completa ''CICLO DE VENDAS''" "tem ?ns ''CICLO DE VENDAS''"
    by (simp_all add: df_completa_eq tem_def filtro_status_def)
  have e: "df_ciclo ?ns = []"
    by (simp add: df_completa_eq filtro_status_def df_ciclo_def ciclo_valido_def)
  have g: "snd (dashboard_geral ?ns) = None" "snd (dashboard_geral df_completa) = None"
    by (simp_all add: df_completa_eq filtro_status_def dashboard_geral_def
          create_metrics_cards_def tem_def)
  have c: "ciclos df_completa = [Fin 3]"
    by (simp add: df_completa_eq ciclos_def df_ciclo_def ciclo_valido_def)
  then have ne: "df_ciclo df_completa \<noteq> []"
    by (auto simp: ciclos_def)
  have m: "media [Fin 3] = Fin 3" "mediana [Fin 3] = Fin 3" "minimo [Fin 3] = Fin 3"
    "maximo [Fin 3] = Fin 3"
    by (simp_all add: media_def soma_def mediana_def ordenar_def minimo_def maximo_def)
  from estatisticas_do_ciclo [OF t(2), of ?ns] e g(1)
  have a: "dashboard_ciclo_vendas ?ns = Inr Aviso_Sem_Dados"
    "last (fst (dashboard_geral ?ns)) = (Card_Ciclo_Medio, N_A)"
    by simp_all
  from estatisticas_do_ciclo [OF t(1), of df_completa] ne g(2) c m
  have b: "dashboard_ciclo_vendas df_completa = Inr (Ciclos (Fin 3) (Fin 3) (Fin 3) (Fin 3))"
    "last (fst (dashboard_geral df_completa)) = (Card_Ciclo_Medio, Dias (Fin 3))"
    by simp_all
  from t e g c a b show ?thesis by simp
qed

section \<open>The closers dashboard (claim C9)\<close>

text \<open>
  Claim C9.  In \<open>dashboard_vendedores\<close> the options of the selector, the table
  \<open>vendedor_stats\<close> and the two charts drawn from it are the same for every selection of the
  closer, and the table is the one computed from the whole frame the dashboard received;
  the selection only enters the four cards.
\<close>

theorem tabela_closers_independe_do_seletor:
  "map_sum id (\<lambda>p. (closers p, tabela_closers p, grafico_taxa p, grafico_receita p))
       (dashboard_vendedores df s1)
   = map_sum id (\<lambda>p. (closers p, tabela_closers p, grafico_taxa p, grafico_receita p))
       (dashboard_vendedores df s2)
   \<and> map_sum id tabela_closers (dashboard_vendedores df s1)
     = map_sum id (\<lambda>p. vendedor_stats df) (dashboard_vendedores df s1)"
  by (simp add: dashboard_vendedores_def Let_def)

theorem tabela_closers_independe_do_seletor_witness:
  "map_sum id (\<lambda>p. (closers p, tabela_closers p, grafico_taxa p, grafico_receita p))
       (dashboard_vendedores df_completa ''Carla'')
   = map_sum id (\<lambda>p. (closers p, tabela_closers p, grafico_taxa p, grafico_receita p))
       (dashboard_vendedores df_completa ''Todos'')
   \<and> map_sum id tabela_closers (dashboard_vendedores df_completa ''Carla'')
     = Inr (vendedor_stats df_completa)
   \<and> map Vendedor (vendedor_stats df_completa) = [''Bruno'', ''Carla'']
   \<and> map_sum id cartoes_closer (dashboard_vendedores df_completa ''Carla'')
     = Inr [(Card_Calls_Realizadas, Contagem 1), (Card_Vendas_Fechadas, Contagem 1),
            (Card_Taxa_de_Conversao, Porcento (Fin 100)),
            (Card_Receita_Total, Reais (Fin 2500))]
   \<and> map_sum id cartoes_closer (dashboard_vendedores df_completa ''Todos'')
     = Inr [(Card_Calls_Realizadas, Contagem 1), (Card_Vendas_Fechadas, Contagem 1),
            (Card_Taxa_de_Conversao, Porcento (Fin 100)),
            (Card_Receita_Total, Reais (Fin 2500))]
   \<and> map_sum id cartoes_closer (dashboard_vendedores df_completa ''Bruno'')
     = Inr [(Card_Calls_Realizadas, Contagem 0), (Card_Vendas_Fechadas, Contagem 0),
            (Card_Taxa_de_Conversao, Porcento (Fin 0)), (Card_Receita_Total, Reais (Fin 0))]"
proof -
  have i: "\<not> isl (dashboard_vendedores df_completa ''Carla'')"
    by (simp add: df_completa_eq dashboard_vendedores_def tem_def Let_def)
  have v: "map Vendedor (vendedor_stats df_completa) = [''Bruno'', ''Carla'']"
    by (simp add: df_completa_eq vendedor_stats_def chaves_closers Let_def avalia_painel)
  have c: "map_sum id cartoes_closer (dashboard_vendedores df_completa ''Carla'')
     = Inr [(Card_Calls_Realizadas, Contagem 1), (Card_Vendas_Fechadas, Contagem 1),
            (Card_Taxa_de_Conversao, Porcento (Fin 100)),
            (Card_Receita_Total, Reais (Fin 2500))]"
    "map_sum id cartoes_closer (dashboard_vendedores df_completa ''Todos'')
     = Inr [(Card_Calls_Realizadas, Contagem 1), (Card_Vendas_Fechadas, Contagem 1),
            (Card_Taxa_de_Conversao, Porcento (Fin 100)),
            (Card_Receita_Total, Reais (Fin 2500))]"
    "map_sum id cartoes_closer (dashboard_vendedores df_completa ''Bruno'')
     = Inr [(Card_Calls_Realizadas, Contagem 0), (Card_Vendas_Fechadas, Contagem 0),
            (Card_Taxa_de_Conversao, Porcento (Fin 0)), (Card_Receita_Total, Reais (Fin 0))]"
    by (simp_all add: df_completa_eq dashboard_vendedores_def chaves_closers avalia_painel Let_def)
  note t = tabela_closers_independe_do_seletor [of df_completa "''Carla''" "''Todos''"]
  from t i have f: "map_sum id tabela_closers (dashboard_vendedores df_completa ''Carla'')
     = Inr (vendedor_stats df_completa)"
    by (cases "dashboard_vendedores df_completa ''Carla''") auto
  from t f v c show ?thesis by simp
qed

section \<open>The options of the selectors (claim C3)\<close>

lemma tem_filtro [simp]:
  "tem (filtro_produto s df) nome = tem df nome"
  "tem (filtro_funil s df) nome = tem df nome"
  "tem (filtro_status s df) nome = tem df nome"
  "tem (filtro_agendamento a b df) nome = tem df nome"
  "tem (filtro_venda a b df) nome = tem df nome"
  by (simp_all add: filtro_produto_def filtro_funil_def filtro_status_def
        filtro_agendamento_def filtro_venda_def)

lemma passos_sem_seletores [simp]:
  "passo_agendamento (u\<lparr>selected_produto := p\<rparr>) df = passo_agendamento u df"
  "passo_agendamento (u\<lparr>selected_funil := f\<rparr>) df = passo_agendamento u df"
  "passo_agendamento (u\<lparr>selected_status := t\<rparr>) df = passo_agendamento u df"
  "passo_venda (u\<lparr>selected_produto := p\<rparr>) df = passo_venda u df"
  "passo_venda (u\<lparr>selected_funil := f\<rparr>) df = passo_venda u df"
  "passo_venda (u\<lparr>selected_status := t\<rparr>) df = passo_venda u df"
  by (simp_all add: passo_agendamento_def passo_venda_def Let_def)

lemma chaves_exemplos:
  "chaves [''A'', ''B''] = [''A'', ''B'']"
  "chaves [''Inbound''] = [''Inbound'']"
  "chaves [''No Show''] = [''No Show'']"
  by code_simp+

lemmas avalia_filtros =
  filtros_def passo_agendamento_def passo_venda_def filtro_agendamento_def filtro_venda_def
  filtro_produto_def filtro_funil_def filtro_status_def filtrar_def tem_def ts_ge_def ts_le_def
  opcoes_def opcoes_produto_def opcoes_funil_def opcoes_status_def dropna_def
  ui_inicial_def ui_produto_A_def Let_def date_le_def

text \<open>
  Claim C3 fails on the sheet \<open>planilha_completa\<close>: with the product \<open>A\<close> selected (an
  option the product selector offers) the funnel selector only offers \<open>Inbound\<close>, while the
  funnels of the whole frame are \<open>Inbound\<close> and \<open>Outbound\<close>.
\<close>

theorem opcoes_de_funil_dependem_do_produto:
  "map_sum id produtos (filtros ui_inicial df_completa) = Inr [''Todos'', ''A'', ''B'']
   \<and> map_sum id funis (filtros ui_produto_A df_completa) = Inr [''Todos'', ''Inbound'']
   \<and> opcoes_funil df_completa = [''Todos'', ''Inbound'', ''Outbound'']
   \<and> map_sum id funis (filtros ui_produto_A df_completa) \<noteq> Inr (opcoes_funil df_completa)"
proof -
  have p: "map_sum id produtos (filtros ui_inicial df_completa) = Inr [''Todos'', ''A'', ''B'']"
    by (simp add: df_completa_eq avalia_filtros chaves_exemplos)
  have a: "map_sum id funis (filtros ui_produto_A df_completa) = Inr [''Todos'', ''Inbound'']"
    by (simp add: df_completa_eq avalia_filtros chaves_exemplos)
  have f: "opcoes_funil df_completa = [''Todos'', ''Inbound'', ''Outbound'']"
    by (simp add: df_completa_eq opcoes_funil_def opcoes_def chaves_funis)
  from p a f show ?thesis by simp
qed

text \<open>
  Claim C3 as amended.  Each list of options is computed from the frame as the filters
  before it left it, in the order of \<open>main\<close>: the products from the frame filtered by the two
  date ranges, the funnels from that frame filtered by the selected product, the statuses
  from that one filtered by the selected funnel.  A list does not depend on the selection
  of its own selector nor on the selectors after it.
\<close>

theorem opcoes_em_cascata:
  "map_sum id produtos (filtros u df)
     = map_sum id (\<lambda>s. opcoes_produto (snd (passo_venda u (passo_agendamento u df))))
         (filtros u df)
   \<and> map_sum id funis (filtros u df)
     = map_sum id (\<lambda>s. opcoes_funil (filtro_produto (selected_produto u)
                           (snd (passo_venda u (passo_agendamento u df))))) (filtros u df)
   \<and> map_sum id status_options (filtros u df)
     = map_sum id (\<lambda>s. opcoes_status (filtro_funil (selected_funil u)
                           (filtro_produto (selected_produto u)
                              (snd (passo_venda u (passo_agendamento u df)))))) (filtros u df)
   \<and> map_sum id produtos
        (filtros (u\<lparr>selected_produto := p, selected_funil := f, selected_status := t\<rparr>) df)
     = map_sum id produtos (filtros u df)
   \<and> map_sum id funis (filtros (u\<lparr>selected_funil := f, selected_status := t\<rparr>) df)
     = map_sum id funis (filtros u df)
   \<and> map_sum id status_options (filtros (u\<lparr>selected_status := t\<rparr>) df)
     = map_sum id status_options (filtros u df)"
  by (simp add: filtros_def Let_def)

theorem opcoes_em_cascata_witness:
  "map_sum id funis (filtros ui_produto_A df_completa)
     = Inr (opcoes_funil (filtro_produto ''A''
              (snd (passo_venda ui_produto_A (passo_agendamento ui_produto_A df_completa)))))
   \<and> map_sum id funis (filtros ui_produto_A df_completa) = Inr [''Todos'', ''Inbound'']
   \<and> map_sum id funis
        (filtros (ui_produto_A\<lparr>selected_funil := ''Inbound'', selected_status := ''No Show''\<rparr>)
           df_completa) = Inr [''Todos'', ''Inbound'']
   \<and> map_sum id status_options (filtros ui_produto_A df_completa) = Inr [''Todos'', ''No Show'']"
proof -
  have i: "\<not> isl (filtros ui_produto_A df_completa)"
    by (simp add: df_completa_eq avalia_filtros)
  have s: "selected_produto ui_produto_A = ''A''"
    by (simp add: ui_produto_A_def)
  have a: "map_sum id funis (filtros ui_produto_A df_completa) = Inr [''Todos'', ''Inbound'']"
    by (simp add: df_completa_eq avalia_filtros chaves_exemplos)
  have b: "map_sum id status_options (filtros ui_produto_A df_completa)
           = Inr [''Todos'', ''No Show'']"
    by (simp add: df_completa_eq avalia_filtros chaves_exemplos)
  note t = opcoes_em_cascata
    [where u = ui_produto_A and df = df_completa and p = "''A''" and f = "''Inbound''"
       and t = "''No Show''"]
  from t i s have c: "map_sum id funis (filtros ui_produto_A df_completa)
     = Inr (opcoes_funil (filtro_produto ''A''
              (snd (passo_venda ui_produto_A (passo_agendamento ui_produto_A df_completa)))))"
    by (cases "filtros ui_produto_A df_completa") auto
  note t5 = t [THEN conjunct2, THEN conjunct2, THEN conjunct2, THEN conjunct2, THEN conjunct1]
  have d: "map_sum id funis
        (filtros (ui_produto_A\<lparr>selected_funil := ''Inbound'', selected_status := ''No Show''\<rparr>)
           df_completa) = Inr [''Todos'', ''Inbound'']"
    by (rule trans [OF t5 a])
  from a b c d show ?thesis by simp
qed

section \<open>The scenario of one row (claim C4)\<close>











end
